theory Spec2Isabelle
  imports Main "HOL-Library.AList" "HOL-Library.Char_ord" "HOL-Library.List_Lexorder"
begin

section \<open>The gas registry of discord-stock-ticker (gas\_request.go)\<close>

text \<open>
  The three HTTP handlers \<open>AddGas\<close>, \<open>DeleteGas\<close> and \<open>GetGas\<close> of the manager and the
  helper \<open>addGas\<close> are embedded as functions on an explicit state. The state carries the
  manager's map \<open>WatchingGas\<close> and its database handle \<open>DB\<close>, and with them the two
  package-level globals the handlers touch: the gauge \<open>gasCount\<close> and the logger, whose
  calls are appended, in program order, to a trace together with the shutdown signals and
  the map mutations. What the libraries return (reading and decoding the body, the SQL
  driver, the response writer) is an input of the model.
\<close>

subsection \<open>Strings\<close>

text \<open>
  \<open>strings.ToUpper\<close>, as the Go library computes it. A string of ASCII bytes only is
  mapped byte by byte: a lower-case letter to its upper-case letter, every other byte to
  itself. On any other string the library returns \<open>Map(unicode.ToUpper, s)\<close>, which
  decodes UTF-8 and reads the Unicode case tables; that function is a parameter of the
  model (\<open>unicode_upper\<close> here, \<open>U\<close> in the handlers), and every general property below
  holds for whatever it is.
\<close>

definition upper_byte :: "char \<Rightarrow> char" where
  "upper_byte c =
     (let n = (of_char c :: nat) in if 97 \<le> n \<and> n \<le> 122 then char_of (n - 32) else c)"

definition isASCII :: "string \<Rightarrow> bool" where
  "isASCII s = list_all (\<lambda>c. (of_char c :: nat) < 128) s"

definition ToUpper :: "(string \<Rightarrow> string) \<Rightarrow> string \<Rightarrow> string" where
  "ToUpper unicode_upper s = (if isASCII s then map upper_byte s else unicode_upper s)"

subsection \<open>Data\<close>

text \<open>\<open>GasRequest\<close>, the struct the request body is decoded into (lines 14 to 19).\<close>

record GasRequest =
  req_Network :: string
  req_Token :: string
  req_Nickname :: bool
  req_Frequency :: int

text \<open>
  Modelled from the spec: the declaration of the entry \<open>Gas\<close> is not in gas\_request.go.
  The fields are the ones the handlers use, \<open>gas.Network\<close>, \<open>gas.Nickname\<close>,
  \<open>gas.Frequency\<close> (exported) and \<open>gas.token\<close> (lower-case, hence unexported); they are
  the spec's \<open>key\<close>, \<open>flagOption\<close>, \<open>frequencySeconds\<close> and \<open>credential\<close>.
\<close>

record Gas =
  Network :: string
  Nickname :: bool
  Frequency :: int
  token :: string

text \<open>A row of the table \<open>gases\<close>: the columns named by the three SQL statements.\<close>

record row =
  row_id :: int
  row_token :: string
  row_nickname :: bool
  row_network :: string
  row_frequency :: int

datatype level = Debug | Info | Warning | Error

datatype event =
    Logged level
  | ShutdownSent string
  | GaugeInc
  | GaugeDec
  | MapStore string
  | MapDelete string

text \<open>
  The state: the fields \<open>m.WatchingGas\<close> and \<open>m.DB\<close> of the manager, the gauge and the
  trace. \<open>DB = None\<close> is the nil handle; a handle is the table \<open>gases\<close> behind it. The Go map is an association list that is
  only read with \<open>map_of\<close> and written with \<open>AList.update\<close> (an assignment replaces the
  value of a key that is there) and \<open>AList.delete\<close>. The gauge is a float64 in the
  Prometheus client; it only ever moves by one, and is an integer here.
\<close>

record Manager =
  WatchingGas :: "(string \<times> Gas) list"
  DB :: "row list option"
  gasCount :: int
  trace :: "event list"

subsection \<open>Requests and responses\<close>

text \<open>
  The body of a request, by what \<open>ioutil.ReadAll\<close> and \<open>json.Unmarshal\<close> make of it:
  reading fails, or the bytes are not JSON for a \<open>GasRequest\<close> (not JSON at all, a member
  of the wrong type, a number that does not fit an int), or they are a JSON object in
  which each of the four members is present or not.
\<close>

record Fields =
  f_network :: "string option"
  f_discord_bot_token :: "string option"
  f_set_nickname :: "bool option"
  f_frequency :: "int option"

datatype payload = Malformed | Object Fields

datatype body = ReadError | Bytes payload

record Request =
  Body :: body
  Vars :: "(string \<times> string) list"

text \<open>
  \<open>json.Unmarshal\<close> into a zero-valued \<open>GasRequest\<close>: a member that is absent leaves the
  field at Go's zero value. The struct tag \<open>default:"60"\<close> of \<open>Frequency\<close> is not a tag
  that encoding/json reads.
\<close>

definition Unmarshal :: "payload \<Rightarrow> GasRequest option" where
  "Unmarshal p =
     (case p of
        Malformed \<Rightarrow> None
      | Object f \<Rightarrow> Some \<lparr>
          req_Network = (case f_network f of None \<Rightarrow> [] | Some s \<Rightarrow> s),
          req_Token = (case f_discord_bot_token f of None \<Rightarrow> [] | Some s \<Rightarrow> s),
          req_Nickname = (case f_set_nickname f of None \<Rightarrow> False | Some b \<Rightarrow> b),
          req_Frequency = (case f_frequency f of None \<Rightarrow> 0 | Some n \<Rightarrow> n) \<rparr>)"

text \<open>\<open>mux.Vars(r)["id"]\<close>: a Go map read, the empty string for a missing key.\<close>

definition path_id :: "Request \<Rightarrow> string" where
  "path_id r = (case map_of (Vars r) ''id'' of None \<Rightarrow> [] | Some v \<Rightarrow> v)"

datatype json =
    JString string
  | JBool bool
  | JInt int
  | JObject "(string \<times> json) list"

text \<open>
  The response writer: the status line is fixed by the first \<open>WriteHeader\<close>; a later
  call is superfluous and changes nothing.
\<close>

record ResponseWriter =
  header :: "(string \<times> string) list"
  status :: "nat option"
  written :: "json option"

definition new_writer :: ResponseWriter where
  "new_writer = \<lparr> header = [], status = None, written = None \<rparr>"

definition WriteHeader :: "nat \<Rightarrow> ResponseWriter \<Rightarrow> ResponseWriter" where
  "WriteHeader code w = (case status w of None \<Rightarrow> w\<lparr> status := Some code \<rparr> | Some _ \<Rightarrow> w)"

definition SetHeader :: "string \<Rightarrow> string \<Rightarrow> ResponseWriter \<Rightarrow> ResponseWriter" where
  "SetHeader k v w = w\<lparr> header := AList.update k v (header w) \<rparr>"

text \<open>
  \<open>json.NewEncoder(w).Encode(v)\<close>: the value is written, or the write fails and the
  error is returned (\<open>False\<close>).
\<close>

definition Encode :: "bool \<Rightarrow> json \<Rightarrow> ResponseWriter \<Rightarrow> ResponseWriter \<times> bool" where
  "Encode write_fails v w = (if write_fails then (w, False) else (w\<lparr> written := Some v \<rparr>, True))"

text \<open>
  Modelled from the spec: the JSON names of the fields of \<open>Gas\<close> are part of its missing
  declaration; the created-entry body "contains network", and the other two members are
  named after their fields. encoding/json makes of an entry an object of the exported
  fields: the unexported \<open>token\<close> is not a member. Of a Go map it makes an object whose
  members are the entries, sorted by key.
\<close>

definition json_of_Gas :: "Gas \<Rightarrow> json" where
  "json_of_Gas g =
     JObject [(''network'', JString (Network g)),
              (''nickname'', JBool (Nickname g)),
              (''frequency'', JInt (Frequency g))]"

definition json_of_map :: "(string \<times> Gas) list \<Rightarrow> json" where
  "json_of_map al = JObject (sort_key fst (map (\<lambda>(k, g). (k, json_of_Gas g)) al))"

text \<open>
  The environment of one request: the calls to the SQL driver that return an error, and
  whether writing the response body fails. The stages are, in the order of \<open>addGas\<close>:
  \<open>Prepare\<close> of the SELECT (line 88), \<open>Query\<close> (line 94), \<open>rows.Next\<close> fetching a row
  (line 102), \<open>Scan\<close> of a row (line 103), \<open>Prepare\<close> of the UPDATE or of the INSERT
  (lines 114, 136), its \<open>Exec\<close> (lines 120, 142) and \<open>LastInsertId\<close> (lines 126, 148). An
  \<open>Exec\<close> that fails leaves the table as it is.
\<close>

datatype stage =
  PrepareSelect | QuerySelect | NextRow | ScanRow | PrepareWrite | ExecWrite | LastInsertId

record Env =
  db_fails :: "stage set"
  write_fails :: bool

subsection \<open>The entry constructor\<close>

text \<open>
  Modelled from the spec: \<open>NewGas\<close>, the constructor of an entry, is defined in a file
  other than gas\_request.go. The spec's \<open>Add\<close> "constructs a new WatchEntry, starts its
  Watcher" from the four attributes of the request: the entry carries them as passed.
  Upper-casing the key and defaulting the frequency are, in the spec, the work of \<open>Add\<close>
  and of the request, not of the constructor. The watcher that is started runs beside
  the registry and is not modelled.
\<close>

definition NewGas :: "string \<Rightarrow> string \<Rightarrow> bool \<Rightarrow> int \<Rightarrow> Gas" where
  "NewGas network tok nickname frequency =
     \<lparr> Network = network, Nickname = nickname, Frequency = frequency, token = tok \<rparr>"

subsection \<open>The store\<close>

definition logged :: "level \<Rightarrow> Manager \<Rightarrow> Manager" where
  "logged l m = m\<lparr> trace := trace m @ [Logged l] \<rparr>"

text \<open>\<open>SELECT id FROM gases WHERE network = ? LIMIT 1\<close>: the id of the first row of the
  network, in the order of the table.\<close>

definition select_id :: "string \<Rightarrow> row list \<Rightarrow> int list" where
  "select_id network rows = take 1 (map row_id (filter (\<lambda>r. row_network r = network) rows))"

text \<open>
  The loop \<open>for rows.Next() { err = rows.Scan(&existingId) ... }\<close> over the result
  (lines 102 to 109). \<open>rows.Next()\<close> is false at the end of the result and also when
  fetching the next row fails; the source does not consult \<open>rows.Err()\<close>, so in both
  cases the loop just ends with \<open>existingId\<close> as it is. The result is \<open>None\<close> when a scan
  fails, the one error the loop returns on.
\<close>

fun scan_rows :: "bool \<Rightarrow> bool \<Rightarrow> int list \<Rightarrow> int \<Rightarrow> int option" where
  "scan_rows next_fails scan_fails [] existingId = Some existingId"
| "scan_rows next_fails scan_fails (i # rest) existingId =
     (if next_fails then Some existingId
      else if scan_fails then None
      else scan_rows next_fails scan_fails rest i)"

text \<open>\<open>update gases set token = ?, nickname = ?, network = ?, frequency = ? WHERE id = ?\<close>\<close>

definition update_gases :: "Gas \<Rightarrow> int \<Rightarrow> row list \<Rightarrow> row list" where
  "update_gases gas existingId rows =
     map (\<lambda>r. if row_id r = existingId
               then r\<lparr> row_token := token gas, row_nickname := Nickname gas,
                       row_network := Network gas, row_frequency := Frequency gas \<rparr>
               else r) rows"

text \<open>
  \<open>INSERT INTO gases(token, nickname, network, frequency) values(?,?,?,?)\<close>: the store
  assigns the id, one more than the largest in the table and at least 1.
\<close>

definition next_id :: "row list \<Rightarrow> int" where
  "next_id rows = fold max (map row_id rows) 0 + 1"

definition insert_gases :: "Gas \<Rightarrow> row list \<Rightarrow> row list" where
  "insert_gases gas rows =
     rows @ [\<lparr> row_id = next_id rows, row_token = token gas, row_nickname = Nickname gas,
               row_network = Network gas, row_frequency = Frequency gas \<rparr>]"

subsection \<open>addGas (lines 77 to 154)\<close>

text \<open>
  \<open>persist\<close> is the part of \<open>addGas\<close> behind the test of the handle against nil (lines 87
  to 153), on the table \<open>rows\<close> behind the handle; every error that the source checks
  is logged as a warning and ends the function.
\<close>

definition persist :: "stage set \<Rightarrow> Gas \<Rightarrow> row list \<Rightarrow> Manager \<Rightarrow> Manager" where
  "persist F gas rows m =
     (if PrepareSelect \<in> F then logged Warning m
      else if QuerySelect \<in> F then logged Warning m
      else
        case scan_rows (NextRow \<in> F) (ScanRow \<in> F) (select_id (Network gas) rows) 0 of
          None \<Rightarrow> logged Warning m
        | Some existingId \<Rightarrow>
            if existingId \<noteq> 0 then
              if PrepareWrite \<in> F then logged Warning m
              else if ExecWrite \<in> F then logged Warning m
              else
                let m' = m\<lparr> DB := Some (update_gases gas existingId rows) \<rparr>
                in if LastInsertId \<in> F then logged Warning m' else logged Info m'
            else
              if PrepareWrite \<in> F then logged Warning m
              else if ExecWrite \<in> F then logged Warning m
              else
                let m' = m\<lparr> DB := Some (insert_gases gas rows) \<rparr>
                in if LastInsertId \<in> F then logged Warning m' else m')"

definition addGas :: "stage set \<Rightarrow> Gas \<Rightarrow> Manager \<Rightarrow> Manager" where
  "addGas F gas m =
     (let m1 = m\<lparr> gasCount := gasCount m + 1, trace := trace m @ [GaugeInc] \<rparr>;
          id = Network gas;
          m2 = m1\<lparr> WatchingGas := AList.update id gas (WatchingGas m1),
                   trace := trace m1 @ [MapStore id] \<rparr>
      in case DB m2 of
           None \<Rightarrow> m2
         | Some rows \<Rightarrow> persist F gas rows m2)"

subsection \<open>AddGas (lines 22 to 75)\<close>

definition AddGas ::
  "(string \<Rightarrow> string) \<Rightarrow> Env \<Rightarrow> Request \<Rightarrow> Manager \<Rightarrow> Manager \<times> ResponseWriter" where
  "AddGas U env r m0 =
     (let w = new_writer; m = logged Debug m0 in
      case Body r of
        ReadError \<Rightarrow> (logged Error m, WriteHeader 500 w)
      | Bytes p \<Rightarrow>
          (case Unmarshal p of
             None \<Rightarrow> (logged Error m, WriteHeader 500 w)
           | Some gasReq \<Rightarrow>
               if req_Token gasReq = [] then (logged Error m, WriteHeader 400 w)
               else if req_Network gasReq = [] then (logged Error m, WriteHeader 400 w)
               else if map_of (WatchingGas m) (ToUpper U (req_Network gasReq)) \<noteq> None
                 then (logged Error m, WriteHeader 409 w)
               else
                 let gas = NewGas (req_Network gasReq) (req_Token gasReq)
                                  (req_Nickname gasReq) (req_Frequency gasReq);
                     m' = addGas (db_fails env) gas m;
                     w1 = SetHeader ''Content-Type'' ''application/json; charset=UTF-8'' w;
                     w2 = WriteHeader 200 w1;
                     (w3, ok) = Encode (write_fails env) (json_of_Gas gas) w2
                 in if ok then (m', w3) else (logged Error m', WriteHeader 400 w3)))"

subsection \<open>DeleteGas (lines 157 to 180)\<close>

definition DeleteGas ::
  "(string \<Rightarrow> string) \<Rightarrow> Request \<Rightarrow> Manager \<Rightarrow> Manager \<times> ResponseWriter" where
  "DeleteGas U r m0 =
     (let w = new_writer; m = logged Debug m0; id = ToUpper U (path_id r) in
      case map_of (WatchingGas m) id of
        None \<Rightarrow> (logged Error m, WriteHeader 404 w)
      | Some g \<Rightarrow>
          let m1 = m\<lparr> trace := trace m @ [ShutdownSent id] \<rparr>;
              m2 = m1\<lparr> gasCount := gasCount m1 - 1, trace := trace m1 @ [GaugeDec] \<rparr>;
              m3 = m2\<lparr> WatchingGas := AList.delete id (WatchingGas m2),
                       trace := trace m2 @ [MapDelete id] \<rparr>
          in (logged Info m3, WriteHeader 204 w))"

subsection \<open>GetGas (lines 183 to 191)\<close>

definition GetGas :: "Env \<Rightarrow> Request \<Rightarrow> Manager \<Rightarrow> Manager \<times> ResponseWriter" where
  "GetGas env r m =
     (let w1 = SetHeader ''Content-Type'' ''application/json; charset=UTF-8'' new_writer;
          w2 = WriteHeader 200 w1;
          (w3, ok) = Encode (write_fails env) (json_of_map (WatchingGas m)) w2
      in if ok then (m, w3) else (logged Error m, w3))"

subsection \<open>Runs of requests\<close>

datatype op = CallAddGas Env Request | CallDeleteGas Request | CallGetGas Env Request

fun exec :: "(string \<Rightarrow> string) \<Rightarrow> op \<Rightarrow> Manager \<Rightarrow> Manager \<times> ResponseWriter" where
  "exec U (CallAddGas env r) m = AddGas U env r m"
| "exec U (CallDeleteGas r) m = DeleteGas U r m"
| "exec U (CallGetGas env r) m = GetGas env r m"

text \<open>The responses of a sequence of requests, served one after the other.\<close>

fun run :: "(string \<Rightarrow> string) \<Rightarrow> op list \<Rightarrow> Manager \<Rightarrow> ResponseWriter list" where
  "run U [] m = []"
| "run U (c # cs) m = (let (m', w) = exec U c m in w # run U cs m')"

subsection \<open>Notions the properties are stated with\<close>

text \<open>The rows of the table for one network.\<close>

definition rows_of :: "string \<Rightarrow> row list \<Rightarrow> row list" where
  "rows_of network rows = filter (\<lambda>r. row_network r = network) rows"

text \<open>
  Two requests that differ at most in the token: the same members \<open>network\<close>,
  \<open>set_nickname\<close> and \<open>frequency\<close>, and a token supplied (present and not empty) in both
  or in neither.
\<close>

definition supplied :: "Fields \<Rightarrow> bool" where
  "supplied f = (case f_discord_bot_token f of None \<Rightarrow> False | Some t \<Rightarrow> t \<noteq> [])"

fun same_but_token :: "body \<Rightarrow> body \<Rightarrow> bool" where
  "same_but_token (Bytes (Object f)) (Bytes (Object g)) =
     (f_network f = f_network g \<and> f_set_nickname f = f_set_nickname g
      \<and> f_frequency f = f_frequency g \<and> supplied f = supplied g)"
| "same_but_token b c = (b = c)"

fun op_same_but_token :: "op \<Rightarrow> op \<Rightarrow> bool" where
  "op_same_but_token (CallAddGas e r) (CallAddGas e' r') =
     (e = e' \<and> Vars r = Vars r' \<and> same_but_token (Body r) (Body r'))"
| "op_same_but_token (CallDeleteGas r) (CallDeleteGas r') = (r = r')"
| "op_same_but_token (CallGetGas e r) (CallGetGas e' r') = (e = e' \<and> r = r')"
| "op_same_but_token _ _ = False"

text \<open>What the responses can show of the map: its keys and the encoded entries.\<close>

definition visible :: "Manager \<Rightarrow> (string \<times> json) list" where
  "visible m = map (\<lambda>(k, g). (k, json_of_Gas g)) (WatchingGas m)"

subsection \<open>Concrete requests and states\<close>

text \<open>The manager at process start, without a store.\<close>

definition empty_Manager :: Manager where
  "empty_Manager = \<lparr> WatchingGas = [], DB = None, gasCount = 0, trace = [] \<rparr>"

text \<open>
  A stand-in for the Unicode part of \<open>strings.ToUpper\<close> in the concrete runs below: their
  keys are ASCII, so it is never consulted.
\<close>

definition no_unicode :: "string \<Rightarrow> string" where
  "no_unicode s = s"

text \<open>An environment in which nothing fails.\<close>

definition quiet :: Env where
  "quiet = \<lparr> db_fails = {}, write_fails = False \<rparr>"

text \<open>A POST whose body is a JSON object with the given members, and a request with the
  path variable \<open>id\<close> and an empty JSON object as body.\<close>

definition post :: "string option \<Rightarrow> string option \<Rightarrow> bool option \<Rightarrow> int option \<Rightarrow> Request" where
  "post n t k f =
     \<lparr> Body = Bytes (Object \<lparr> f_network = n, f_discord_bot_token = t,
                              f_set_nickname = k, f_frequency = f \<rparr>),
       Vars = [] \<rparr>"

definition with_id :: "string \<Rightarrow> Request" where
  "with_id i =
     \<lparr> Body = Bytes (Object \<lparr> f_network = None, f_discord_bot_token = None,
                              f_set_nickname = None, f_frequency = None \<rparr>),
       Vars = [(''id'', i)] \<rparr>"

definition two_rows :: "row list" where
  "two_rows =
     [\<lparr> row_id = 1, row_token = ''old'', row_nickname = False,
        row_network = ''ETH'', row_frequency = 5 \<rparr>,
      \<lparr> row_id = 2, row_token = ''bsc'', row_nickname = False,
        row_network = ''BSC'', row_frequency = 7 \<rparr>]"

text \<open>A manager that watches \<open>ETH\<close>, with a store of two rows.\<close>

definition eth_Manager :: Manager where
  "eth_Manager =
     \<lparr> WatchingGas = [(''ETH'', NewGas ''ETH'' ''abc'' True 30)], DB = Some two_rows,
       gasCount = 1, trace = [] \<rparr>"

text \<open>A manager after a restart: nothing is watched, and the store holds the two rows.\<close>

definition restarted_Manager :: Manager where
  "restarted_Manager = \<lparr> WatchingGas = [], DB = Some two_rows, gasCount = 0, trace = [] \<rparr>"

section \<open>Properties\<close>

subsection \<open>Auxiliary facts\<close>

lemmas writer_simps = new_writer_def WriteHeader_def SetHeader_def Encode_def

lemma WatchingGas_logged [simp]: "WatchingGas (logged l m) = WatchingGas m"
  by (simp add: logged_def)

lemma WatchingGas_persist [simp]: "WatchingGas (persist F gas rows m) = WatchingGas m"
  by (simp add: persist_def Let_def split: option.split)

lemma WatchingGas_addGas:
  "WatchingGas (addGas F gas m) = AList.update (Network gas) gas (WatchingGas m)"
  by (simp add: addGas_def Let_def split: option.split)

text \<open>After decoding, \<open>AddGas\<close> is a chain of three checks and the registration.\<close>

lemma AddGas_decoded:
  assumes "Body r = Bytes p" and "Unmarshal p = Some q"
  shows "AddGas U env r m =
    (if req_Token q = [] \<or> req_Network q = []
       then (logged Error (logged Debug m), WriteHeader 400 new_writer)
     else if map_of (WatchingGas m) (ToUpper U (req_Network q)) \<noteq> None
       then (logged Error (logged Debug m), WriteHeader 409 new_writer)
     else
       let gas = NewGas (req_Network q) (req_Token q) (req_Nickname q) (req_Frequency q);
           m' = addGas (db_fails env) gas (logged Debug m);
           w = WriteHeader 200
                 (SetHeader ''Content-Type'' ''application/json; charset=UTF-8'' new_writer)
       in if write_fails env then (logged Error m', w)
          else (m', w\<lparr> written := Some (json_of_Gas gas) \<rparr>))"
  using assms by (auto simp: AddGas_def Let_def writer_simps)

subsubsection \<open>What the responses show\<close>

lemma visible_lookup: "(map_of (WatchingGas m) k = None) = (map_of (visible m) k = None)"
  by (simp add: visible_def map_of_map)

lemma map_snd_update:
  "map (\<lambda>(k, v). (k, f v)) (AList.update k0 v0 al)
     = AList.update k0 (f v0) (map (\<lambda>(k, v). (k, f v)) al)"
  by (induction al) auto

lemma map_snd_delete:
  "map (\<lambda>(k, v). (k, f v)) (AList.delete k0 al)
     = AList.delete k0 (map (\<lambda>(k, v). (k, f v)) al)"
  by (induction al) auto

lemma visible_logged [simp]: "visible (logged l m) = visible m"
  by (simp add: visible_def)

lemma visible_addGas:
  "visible (addGas F gas m) = AList.update (Network gas) (json_of_Gas gas) (visible m)"
  by (simp add: visible_def WatchingGas_addGas map_snd_update)

lemma json_of_map_visible: "json_of_map (WatchingGas m) = JObject (sort_key fst (visible m))"
  by (simp add: json_of_map_def visible_def)

lemma json_of_Gas_NewGas:
  "json_of_Gas (NewGas n t k f)
     = JObject [(''network'', JString n), (''nickname'', JBool k), (''frequency'', JInt f)]"
  "Network (NewGas n t k f) = n"
  by (simp_all add: json_of_Gas_def NewGas_def)

lemma DeleteGas_visible:
  assumes "visible m = visible m'"
  shows "snd (DeleteGas U r m) = snd (DeleteGas U r m')"
    and "visible (fst (DeleteGas U r m)) = visible (fst (DeleteGas U r m'))"
proof -
  have look: "(map_of (WatchingGas m) k = None) = (map_of (WatchingGas m') k = None)" for k
    using assms by (simp add: visible_lookup)
  have del: "map (\<lambda>(k, g). (k, json_of_Gas g)) (AList.delete k (WatchingGas m))
           = map (\<lambda>(k, g). (k, json_of_Gas g)) (AList.delete k (WatchingGas m'))" for k
    using assms by (simp add: visible_def map_snd_delete)
  show "snd (DeleteGas U r m) = snd (DeleteGas U r m')"
    using look [of "ToUpper U (path_id r)"]
    by (auto simp: DeleteGas_def Let_def split: option.split)
  show "visible (fst (DeleteGas U r m)) = visible (fst (DeleteGas U r m'))"
    using look [of "ToUpper U (path_id r)"] del [of "ToUpper U (path_id r)"] assms
    by (auto simp: DeleteGas_def Let_def visible_def logged_def split: option.split)
qed

lemma GetGas_visible:
  assumes "visible m = visible m'"
  shows "snd (GetGas env r m) = snd (GetGas env r m')"
    and "visible (fst (GetGas env r m)) = visible (fst (GetGas env r m'))"
  using assms by (auto simp: GetGas_def Let_def json_of_map_visible writer_simps)

lemma Unmarshal_same_but_token:
  assumes "f_network f = f_network g" "f_set_nickname f = f_set_nickname g"
    "f_frequency f = f_frequency g" "supplied f = supplied g"
  shows "\<exists>q q'. Unmarshal (Object f) = Some q \<and> Unmarshal (Object g) = Some q'
     \<and> req_Network q = req_Network q' \<and> req_Nickname q = req_Nickname q'
     \<and> req_Frequency q = req_Frequency q' \<and> (req_Token q = []) = (req_Token q' = [])"
  using assms by (auto simp: Unmarshal_def supplied_def split: option.splits)

lemma AddGas_visible:
  assumes v: "visible m = visible m'" and vars: "Vars r = Vars r'"
    and b: "same_but_token (Body r) (Body r')"
  shows "snd (AddGas U env r m) = snd (AddGas U env r' m') \<and>
         visible (fst (AddGas U env r m)) = visible (fst (AddGas U env r' m'))"
proof (cases "\<exists>f g. Body r = Bytes (Object f) \<and> Body r' = Bytes (Object g)")
  case True
  then obtain f g where bf: "Body r = Bytes (Object f)" and bg: "Body r' = Bytes (Object g)"
    by blast
  from b bf bg Unmarshal_same_but_token [of f g]
  obtain q q' where q: "Unmarshal (Object f) = Some q" "Unmarshal (Object g) = Some q'"
    "req_Network q = req_Network q'" "req_Nickname q = req_Nickname q'"
    "req_Frequency q = req_Frequency q'" "(req_Token q = []) = (req_Token q' = [])"
    by auto
  show ?thesis
    unfolding AddGas_decoded [OF bf q(1)] AddGas_decoded [OF bg q(2)]
    using v q(3-6)
    by (simp add: Let_def visible_addGas json_of_Gas_NewGas visible_lookup)
next
  case False
  then have eq: "Body r = Body r'"
    using b by (cases "(Body r, Body r')" rule: same_but_token.cases) auto
  show ?thesis
  proof (cases "Body r")
    case ReadError
    then show ?thesis using eq v by (simp add: AddGas_def Let_def)
  next
    case (Bytes p)
    show ?thesis
    proof (cases "Unmarshal p")
      case None
      then show ?thesis using Bytes eq v by (simp add: AddGas_def Let_def)
    next
      case (Some q)
      have b': "Body r' = Bytes p" using Bytes eq by simp
      show ?thesis
        unfolding AddGas_decoded [OF Bytes Some] AddGas_decoded [OF b' Some]
        using v by (simp add: Let_def visible_addGas json_of_Gas_NewGas visible_lookup)
    qed
  qed
qed

lemma exec_visible:
  assumes v: "visible m = visible m'" and s: "op_same_but_token c c'"
  shows "snd (exec U c m) = snd (exec U c' m') \<and>
         visible (fst (exec U c m)) = visible (fst (exec U c' m'))"
proof (cases c)
  case (CallAddGas e r)
  with s obtain r' where c': "c' = CallAddGas e r'" and vars: "Vars r = Vars r'"
    and b: "same_but_token (Body r) (Body r')"
    by (cases c') auto
  from AddGas_visible [OF v vars b, of U e] show ?thesis
    by (simp only: CallAddGas c' exec.simps)
next
  case (CallDeleteGas r)
  with s have c': "c' = CallDeleteGas r" by (cases c') auto
  from DeleteGas_visible [OF v, of U r] show ?thesis
    by (simp only: CallDeleteGas c' exec.simps)
next
  case (CallGetGas e r)
  with s have c': "c' = CallGetGas e r" by (cases c') auto
  from GetGas_visible [OF v, of e r] show ?thesis
    by (simp only: CallGetGas c' exec.simps)
qed

lemma run_visible:
  "list_all2 op_same_but_token cs cs' \<Longrightarrow> visible m = visible m'
     \<Longrightarrow> run U cs m = run U cs' m'"
proof (induction cs cs' arbitrary: m m' rule: list_all2_induct)
  case Nil
  show ?case by simp
next
  case (Cons c cs c' cs')
  from exec_visible [OF Cons.prems Cons.hyps(1), of U]
  have w: "snd (exec U c m) = snd (exec U c' m')"
    and v: "visible (fst (exec U c m)) = visible (fst (exec U c' m'))" by auto
  from Cons.IH [OF v] w show ?case by (simp add: case_prod_unfold Let_def)
qed

subsection \<open>Keys and their casing\<close>

text \<open>
  C1. \<open>AddGas\<close> looks the key up in upper case but \<open>addGas\<close> stores the entry under
  \<open>gas.Network\<close> as it came, so a key added in lower case is not found by a \<open>DeleteGas\<close>
  of the same key, whose path id is upper-cased: from the empty manager, the POST of
  network \<open>eth\<close> answers 200 and stores the key \<open>eth\<close>; the DELETE of \<open>eth\<close> looks up
  \<open>ETH\<close>, answers 404 and leaves the map and the gauge as they were.
\<close>

theorem AddGas_lower_case_key_not_deletable:
  "let (m1, w1) = AddGas U quiet (post (Some ''eth'') (Some ''abc'') (Some True) (Some 30))
                    empty_Manager;
       (m2, w2) = DeleteGas U (with_id ''eth'') m1
   in status w1 = Some 200
    \<and> map fst (WatchingGas m1) = [''eth'']
    \<and> ToUpper U (path_id (with_id ''eth'')) = ''ETH''
    \<and> status w2 = Some 404
    \<and> WatchingGas m2 = WatchingGas m1
    \<and> gasCount m2 = 1"
  by code_simp

text \<open>
  C4. The pre-check of \<open>AddGas\<close> does not keep keys apart that are equal after
  upper-casing: from the empty manager, the POST of network \<open>eth\<close> and then of network
  \<open>Eth\<close> both answer 200, and the map then holds the two keys \<open>eth\<close> and \<open>Eth\<close>, which
  have the same upper-casing.
\<close>

theorem AddGas_twice_keys_equal_after_upper_casing:
  "let (m1, w1) = AddGas U quiet (post (Some ''eth'') (Some ''abc'') (Some True) (Some 30))
                    empty_Manager;
       (m2, w2) = AddGas U quiet (post (Some ''Eth'') (Some ''abc'') (Some True) (Some 30)) m1
   in status w1 = Some 200
    \<and> status w2 = Some 200
    \<and> map fst (WatchingGas m2) = [''eth'', ''Eth'']
    \<and> ToUpper U ''eth'' = ToUpper U ''Eth''
    \<and> gasCount m2 = 2"
  by code_simp

subsection \<open>Requests that are refused\<close>

text \<open>
  C2. A decoded Create request with an empty token or an empty network is answered 400;
  one that passes these two checks and whose upper-cased network is a key of the map is
  answered 409. In both cases no body is written, the map (and so every entry in it), the
  gauge and the store are as before, and the trace has gained two log lines and nothing
  else. This holds whatever \<open>strings.ToUpper\<close> does outside ASCII. (The handler checks in
  this order, so a request with an empty token is answered 400 also when its key is
  present.)
\<close>

theorem AddGas_rejects_before_mutation:
  assumes "Body r = Bytes p" and "Unmarshal p = Some q"
  shows "(req_Token q = [] \<or> req_Network q = [] \<longrightarrow>
            status (snd (AddGas U env r m)) = Some 400
          \<and> written (snd (AddGas U env r m)) = None
          \<and> WatchingGas (fst (AddGas U env r m)) = WatchingGas m
          \<and> gasCount (fst (AddGas U env r m)) = gasCount m
          \<and> DB (fst (AddGas U env r m)) = DB m
          \<and> trace (fst (AddGas U env r m)) = trace m @ [Logged Debug, Logged Error])
       \<and> (req_Token q \<noteq> [] \<and> req_Network q \<noteq> []
            \<and> map_of (WatchingGas m) (ToUpper U (req_Network q)) \<noteq> None \<longrightarrow>
            status (snd (AddGas U env r m)) = Some 409
          \<and> written (snd (AddGas U env r m)) = None
          \<and> WatchingGas (fst (AddGas U env r m)) = WatchingGas m
          \<and> gasCount (fst (AddGas U env r m)) = gasCount m
          \<and> DB (fst (AddGas U env r m)) = DB m
          \<and> trace (fst (AddGas U env r m)) = trace m @ [Logged Debug, Logged Error])"
  using assms by (auto simp: AddGas_def Let_def logged_def writer_simps)

text \<open>
  The theorem at work: a POST of network \<open>BTC\<close> without a token to the empty manager
  (400), and a POST of network \<open>eth\<close> to a manager that watches \<open>ETH\<close> (409).
\<close>

theorem AddGas_rejects_before_mutation_witness:
  "status (snd (AddGas no_unicode quiet (post (Some ''BTC'') None None None) empty_Manager))
     = Some 400
   \<and> WatchingGas (fst (AddGas no_unicode quiet (post (Some ''BTC'') None None None)
                         empty_Manager)) = []
   \<and> status (snd (AddGas no_unicode quiet (post (Some ''eth'') (Some ''xyz'') None None)
                    eth_Manager)) = Some 409
   \<and> WatchingGas (fst (AddGas no_unicode quiet (post (Some ''eth'') (Some ''xyz'') None None)
                         eth_Manager))
       = [(''ETH'', NewGas ''ETH'' ''abc'' True 30)]
   \<and> gasCount (fst (AddGas no_unicode quiet (post (Some ''eth'') (Some ''xyz'') None None)
                      eth_Manager)) = 1
   \<and> DB (fst (AddGas no_unicode quiet (post (Some ''eth'') (Some ''xyz'') None None)
                eth_Manager)) = Some two_rows"
proof -
  let ?p1 = "Object \<lparr> f_network = Some ''BTC'', f_discord_bot_token = None,
                      f_set_nickname = None, f_frequency = None \<rparr>"
  let ?q1 = "\<lparr> req_Network = ''BTC'', req_Token = [], req_Nickname = False,
               req_Frequency = 0 \<rparr>"
  let ?p2 = "Object \<lparr> f_network = Some ''eth'', f_discord_bot_token = Some ''xyz'',
                      f_set_nickname = None, f_frequency = None \<rparr>"
  let ?q2 = "\<lparr> req_Network = ''eth'', req_Token = ''xyz'', req_Nickname = False,
               req_Frequency = 0 \<rparr>"
  have b1: "Body (post (Some ''BTC'') None None None) = Bytes ?p1" by (simp add: post_def)
  have u1: "Unmarshal ?p1 = Some ?q1" by (simp add: Unmarshal_def)
  have b2: "Body (post (Some ''eth'') (Some ''xyz'') None None) = Bytes ?p2"
    by (simp add: post_def)
  have u2: "Unmarshal ?p2 = Some ?q2" by (simp add: Unmarshal_def)
  have up: "ToUpper no_unicode ''eth'' = ''ETH''" by code_simp
  have present:
    "map_of (WatchingGas eth_Manager) (ToUpper no_unicode (req_Network ?q2)) \<noteq> None"
    by (simp add: up eth_Manager_def)
  from AddGas_rejects_before_mutation [OF b1 u1, of no_unicode quiet empty_Manager]
    AddGas_rejects_before_mutation [OF b2 u2, of no_unicode quiet eth_Manager] present
  show ?thesis by (simp add: empty_Manager_def eth_Manager_def)
qed

text \<open>A body that is not JSON, posted to the empty manager, is not answered 400.\<close>

theorem AddGas_malformed_not_400:
  "Unmarshal Malformed = None
   \<and> status (snd (AddGas no_unicode quiet \<lparr> Body = Bytes Malformed, Vars = [] \<rparr> empty_Manager))
       = Some 500
   \<and> status (snd (AddGas no_unicode quiet \<lparr> Body = Bytes Malformed, Vars = [] \<rparr> empty_Manager))
       \<noteq> Some 400"
  by (simp add: Unmarshal_def AddGas_def Let_def writer_simps)

text \<open>
  C3, amended. A Create request whose body does not decode into a \<open>GasRequest\<close> is
  answered 500 (not 400), with no body; the map, the gauge and the store are as before,
  and the trace has gained two log lines and nothing else.
\<close>

theorem AddGas_malformed_500_no_mutation:
  assumes "Body r = Bytes p" and "Unmarshal p = None"
  shows "status (snd (AddGas U env r m)) = Some 500
       \<and> written (snd (AddGas U env r m)) = None
       \<and> WatchingGas (fst (AddGas U env r m)) = WatchingGas m
       \<and> gasCount (fst (AddGas U env r m)) = gasCount m
       \<and> DB (fst (AddGas U env r m)) = DB m
       \<and> trace (fst (AddGas U env r m)) = trace m @ [Logged Debug, Logged Error]"
  using assms by (simp add: AddGas_def Let_def logged_def writer_simps)

theorem AddGas_malformed_500_no_mutation_witness:
  "status (snd (AddGas no_unicode quiet \<lparr> Body = Bytes Malformed, Vars = [] \<rparr> eth_Manager))
     = Some 500
   \<and> WatchingGas (fst (AddGas no_unicode quiet \<lparr> Body = Bytes Malformed, Vars = [] \<rparr>
                         eth_Manager))
       = [(''ETH'', NewGas ''ETH'' ''abc'' True 30)]
   \<and> gasCount (fst (AddGas no_unicode quiet \<lparr> Body = Bytes Malformed, Vars = [] \<rparr>
                      eth_Manager)) = 1
   \<and> DB (fst (AddGas no_unicode quiet \<lparr> Body = Bytes Malformed, Vars = [] \<rparr> eth_Manager))
       = Some two_rows"
proof -
  have b: "Body \<lparr> Body = Bytes Malformed, Vars = [] \<rparr> = Bytes Malformed" by simp
  have u: "Unmarshal Malformed = None" by (simp add: Unmarshal_def)
  from AddGas_malformed_500_no_mutation [OF b u, of no_unicode quiet eth_Manager]
  show ?thesis by (simp add: eth_Manager_def)
qed

subsection \<open>Deleting\<close>

text \<open>
  C5. A key that is in the map is not always deleted by a \<open>DeleteGas\<close> of that key: after
  the POST of network \<open>eth\<close> to the empty manager the key \<open>eth\<close> is in the map, with its
  entry; the DELETE of \<open>eth\<close> upper-cases the path id, finds no \<open>ETH\<close> and answers 404.
  The trace gains two log lines only: no shutdown signal is sent, the gauge is not
  decremented, nothing is removed, and the object \<open>GetGas\<close> writes afterwards still has
  the member \<open>eth\<close>.
\<close>

theorem DeleteGas_of_stored_lower_case_key:
  "let (m1, w1) = AddGas U quiet (post (Some ''eth'') (Some ''abc'') (Some True) (Some 30))
                    empty_Manager;
       (m2, w2) = DeleteGas U (with_id ''eth'') m1;
       (m3, w3) = GetGas quiet (with_id []) m2
   in map_of (WatchingGas m1) ''eth'' = Some (NewGas ''eth'' ''abc'' True 30)
    \<and> status w2 = Some 404
    \<and> trace m2 = trace m1 @ [Logged Debug, Logged Error]
    \<and> gasCount m2 = gasCount m1
    \<and> map_of (WatchingGas m2) ''eth'' = Some (NewGas ''eth'' ''abc'' True 30)
    \<and> written w3 = Some (JObject [(''eth'',
         JObject [(''network'', JString ''eth''), (''nickname'', JBool True),
                  (''frequency'', JInt 30)])])"
  by code_simp

subsection \<open>The persistence step\<close>

text \<open>
  C6. The persistence step of \<open>addGas\<close> inserts a second row for a network when fetching
  the row it looked up fails. The table holds one row for \<open>ETH\<close>, with id 1. When no
  stage fails, \<open>addGas\<close> for an entry of network \<open>ETH\<close> updates that row and the table
  keeps its two rows. When \<open>rows.Next()\<close> ends on an error, \<open>existingId\<close> is still 0, the
  step inserts a row of id 3 and the table holds two rows for \<open>ETH\<close>.
\<close>

theorem addGas_inserts_second_row_after_fetch_error:
  "let gas = NewGas ''ETH'' ''new'' True 30;
       m1 = addGas {} gas restarted_Manager;
       m2 = addGas {NextRow} gas restarted_Manager
   in length (rows_of ''ETH'' two_rows) = 1
    \<and> DB m1 = Some [\<lparr> row_id = 1, row_token = ''new'', row_nickname = True,
                       row_network = ''ETH'', row_frequency = 30 \<rparr>,
                     \<lparr> row_id = 2, row_token = ''bsc'', row_nickname = False,
                       row_network = ''BSC'', row_frequency = 7 \<rparr>]
    \<and> DB m2 = Some [\<lparr> row_id = 1, row_token = ''old'', row_nickname = False,
                       row_network = ''ETH'', row_frequency = 5 \<rparr>,
                     \<lparr> row_id = 2, row_token = ''bsc'', row_nickname = False,
                       row_network = ''BSC'', row_frequency = 7 \<rparr>,
                     \<lparr> row_id = 3, row_token = ''new'', row_nickname = True,
                       row_network = ''ETH'', row_frequency = 30 \<rparr>]
    \<and> map_option (\<lambda>rows. length (rows_of ''ETH'' rows)) (DB m2) = Some 2"
  by code_simp

text \<open>
  C7. Not every store error is logged: on the restarted manager, whose store holds a row
  for \<open>ETH\<close>, a POST of network \<open>ETH\<close> during which \<open>rows.Next()\<close> ends on an error is
  answered 200, the entry is in the map and the gauge is 1, as for every other outcome
  of the store; but the trace shows the increment and the insert into the map and no
  warning, and the step has gone on to insert a row.
\<close>

theorem AddGas_fetch_error_not_logged:
  "let env = \<lparr> db_fails = {NextRow}, write_fails = False \<rparr>;
       (m1, w1) = AddGas U env (post (Some ''ETH'') (Some ''xyz'') (Some True) (Some 30))
                    restarted_Manager
   in status w1 = Some 200
    \<and> WatchingGas m1 = [(''ETH'', NewGas ''ETH'' ''xyz'' True 30)]
    \<and> gasCount m1 = 1
    \<and> trace m1 = [Logged Debug, GaugeInc, MapStore ''ETH'']
    \<and> map_option length (DB m1) = Some 3"
  by code_simp

subsection \<open>The frequency of a created entry\<close>

text \<open>
  C8. The frequency of a request that names none is not made 60: a POST of network \<open>ETH\<close>
  with a token and no \<open>frequency\<close> member is decoded with \<open>Frequency = 0\<close>, which \<open>AddGas\<close>
  passes on as it is; the request is answered 200, and the entry stored and the body
  written carry the frequency 0.
\<close>

theorem AddGas_unset_frequency_is_zero:
  "let (m1, w1) = AddGas U quiet (post (Some ''ETH'') (Some ''abc'') None None) empty_Manager
   in status w1 = Some 200
    \<and> map_option Frequency (map_of (WatchingGas m1) ''ETH'') = Some 0
    \<and> written w1 = Some (JObject [(''network'', JString ''ETH''), (''nickname'', JBool False),
                                   (''frequency'', JInt 0)])"
  by code_simp

subsection \<open>The token and the responses\<close>

text \<open>
  C9. The responses do not depend on the tokens: two sequences of requests to the three
  handlers that differ at most in the tokens supplied to \<open>AddGas\<close>, served from the same
  state in the same environment, produce the same list of responses (status, header and
  body written), so neither the body of a Create nor the body of a List shows a token.
\<close>

theorem responses_independent_of_token:
  "list_all2 op_same_but_token cs cs' \<Longrightarrow> run U cs m = run U cs' m"
  by (rule run_visible) simp_all

text \<open>
  The theorem at work: a Create of \<open>ETH\<close> followed by a List, with the token \<open>abc\<close> in
  one run and \<open>xyz\<close> in the other.
\<close>

theorem responses_independent_of_token_witness:
  "list_all2 op_same_but_token
     [CallAddGas quiet (post (Some ''ETH'') (Some ''abc'') (Some True) (Some 30)),
      CallGetGas quiet (with_id [])]
     [CallAddGas quiet (post (Some ''ETH'') (Some ''xyz'') (Some True) (Some 30)),
      CallGetGas quiet (with_id [])]
   \<and> run no_unicode
         [CallAddGas quiet (post (Some ''ETH'') (Some ''abc'') (Some True) (Some 30)),
          CallGetGas quiet (with_id [])] empty_Manager
     = run no_unicode
         [CallAddGas quiet (post (Some ''ETH'') (Some ''xyz'') (Some True) (Some 30)),
          CallGetGas quiet (with_id [])] empty_Manager"
proof -
  have h: "list_all2 op_same_but_token
     [CallAddGas quiet (post (Some ''ETH'') (Some ''abc'') (Some True) (Some 30)),
      CallGetGas quiet (with_id [])]
     [CallAddGas quiet (post (Some ''ETH'') (Some ''xyz'') (Some True) (Some 30)),
      CallGetGas quiet (with_id [])]"
    by (simp add: post_def supplied_def)
  from responses_independent_of_token [OF h, of no_unicode empty_Manager] h
  show ?thesis by simp
qed

subsection \<open>A response that cannot be written\<close>

text \<open>
  C10. When the body of the response cannot be written, the registration stays: after
  the POST of network \<open>eth\<close> the key \<open>eth\<close> is in the map and the gauge is 1. The same
  request again is nevertheless answered 200, not 409, since the pre-check looks up
  \<open>ETH\<close>; the entry is stored a second time and the gauge is 2.
\<close>

theorem AddGas_encode_failure_then_same_request:
  "let env = \<lparr> db_fails = {}, write_fails = True \<rparr>;
       r = post (Some ''eth'') (Some ''abc'') (Some True) (Some 30);
       (m1, w1) = AddGas U env r empty_Manager;
       (m2, w2) = AddGas U env r m1
   in status w1 = Some 200 \<and> written w1 = None
    \<and> map fst (WatchingGas m1) = [''eth'']
    \<and> gasCount m1 = 1
    \<and> status w2 = Some 200
    \<and> map fst (WatchingGas m2) = [''eth'']
    \<and> gasCount m2 = 2"
  by code_simp

end
